theory Spec2Isabelle
  imports Main
begin

section \<open>Python values\<close>

text \<open>
  The registry client hands decoded JSON bodies to \<^verbatim>\<open>server.py\<close>: \<^verbatim>\<open>None\<close>, booleans,
  integers, floats, strings, lists and dictionaries with string keys. A dictionary is an
  association list in insertion order; \<open>map_of\<close> is the lookup, and a dictionary Python
  can build has distinct keys. A float is kept as sign, mantissa and exponent (or an
  infinity, or not-a-number): the server only ever tests it for zero and passes it on.
\<close>

datatype pyfloat =
    Float_finite bool nat int
  | Float_inf bool
  | Float_nan

datatype pyval =
    PNone
  | PBool bool
  | PInt int
  | PFloat pyfloat
  | PStr string
  | PList "pyval list"
  | PDict "(string \<times> pyval) list"

text \<open>Truth value of a Python object, as \<^verbatim>\<open>not x\<close> and \<^verbatim>\<open>x or y\<close> test it.\<close>

fun truthy :: "pyval \<Rightarrow> bool" where
  "truthy PNone = False"
| "truthy (PBool b) = b"
| "truthy (PInt i) = (i \<noteq> 0)"
| "truthy (PFloat (Float_finite s m e)) = (m \<noteq> 0)"
| "truthy (PFloat (Float_inf s)) = True"
| "truthy (PFloat Float_nan) = True"
| "truthy (PStr s) = (s \<noteq> [])"
| "truthy (PList xs) = (xs \<noteq> [])"
| "truthy (PDict kvs) = (kvs \<noteq> [])"

fun type_name :: "pyval \<Rightarrow> string" where
  "type_name PNone = ''NoneType''"
| "type_name (PBool b) = ''bool''"
| "type_name (PInt i) = ''int''"
| "type_name (PFloat f) = ''float''"
| "type_name (PStr s) = ''str''"
| "type_name (PList xs) = ''list''"
| "type_name (PDict kvs) = ''dict''"

fun is_dict :: "pyval \<Rightarrow> bool" where
  "is_dict (PDict kvs) = True"
| "is_dict v = False"

fun is_str :: "pyval \<Rightarrow> bool" where
  "is_str (PStr s) = True"
| "is_str v = False"

text \<open>The declared result type \<^verbatim>\<open>List[Dict[str, Any]]\<close> of the two listing tools.\<close>

fun is_list_of_dict :: "pyval \<Rightarrow> bool" where
  "is_list_of_dict (PList xs) = list_all is_dict xs"
| "is_list_of_dict v = False"

section \<open>Exceptions\<close>

text \<open>
  An exception is its class, as far as the two handlers of every tool tell classes apart
  (\<^verbatim>\<open>except ValueError\<close>, then \<^verbatim>\<open>except Exception\<close>), and the text \<^verbatim>\<open>str(e)\<close>.
  \<open>ValueError\<close> stands for that class and its subclasses, \<open>OtherException\<close> for every
  other class below \<^verbatim>\<open>Exception\<close>, and \<open>BaseExceptionOnly\<close> for the classes below
  \<^verbatim>\<open>BaseException\<close> that are not below \<^verbatim>\<open>Exception\<close>: \<^verbatim>\<open>asyncio.CancelledError\<close>,
  \<^verbatim>\<open>KeyboardInterrupt\<close>, \<^verbatim>\<open>SystemExit\<close>, \<^verbatim>\<open>GeneratorExit\<close>. The client reports
  missing configuration as a \<^verbatim>\<open>ValueError\<close>.
\<close>

datatype exn_class =
    ValueError
  | AttributeError
  | TypeError
  | OtherException
  | BaseExceptionOnly

datatype exn = Exn exn_class string

fun exn_class_of :: "exn \<Rightarrow> exn_class" where
  "exn_class_of (Exn c m) = c"

text \<open>The classes that \<^verbatim>\<open>except Exception\<close> matches.\<close>

fun below_Exception :: "exn_class \<Rightarrow> bool" where
  "below_Exception BaseExceptionOnly = False"
| "below_Exception c = True"

fun str_exn :: "exn \<Rightarrow> string" where
  "str_exn (Exn c m) = m"

definition quoted :: "string \<Rightarrow> string" where
  "quoted s = [CHR 0x27] @ s @ [CHR 0x27]"

text \<open>\<^verbatim>\<open>x.get\<close> on an object without that attribute.\<close>

definition no_attribute :: "pyval \<Rightarrow> string \<Rightarrow> exn" where
  "no_attribute v a =
     Exn AttributeError (quoted (type_name v) @ '' object has no attribute '' @ quoted a)"

text \<open>\<^verbatim>\<open>for dp in x\<close> on an object that cannot be iterated.\<close>

definition not_iterable :: "pyval \<Rightarrow> exn" where
  "not_iterable v = Exn TypeError (quoted (type_name v) @ '' object is not iterable'')"

section \<open>Dictionary access and iteration\<close>

text \<open>
  \<^verbatim>\<open>x.get(k, default)\<close>: only a dictionary has the method; \<^verbatim>\<open>x.get(k)\<close> is
  \<open>py_get x k PNone\<close>.
\<close>

fun py_get :: "pyval \<Rightarrow> string \<Rightarrow> pyval \<Rightarrow> exn + pyval" where
  "py_get (PDict kvs) k d = Inr (case map_of kvs k of None \<Rightarrow> d | Some v \<Rightarrow> v)"
| "py_get v k d = Inl (no_attribute v ''get'')"

text \<open>
  The elements a \<^verbatim>\<open>for\<close> loop visits: the items of a list, the keys of a dictionary, the
  one-character strings of a string.
\<close>

fun py_iter :: "pyval \<Rightarrow> exn + pyval list" where
  "py_iter (PList xs) = Inr xs"
| "py_iter (PDict kvs) = Inr (map (\<lambda>kv. PStr (fst kv)) kvs)"
| "py_iter (PStr s) = Inr (map (\<lambda>c. PStr [c]) s)"
| "py_iter v = Inl (not_iterable v)"

text \<open>\<^verbatim>\<open>dp.get(k) or "N/A"\<close> (lines 119, 121, 122).\<close>

definition get_or_na :: "pyval \<Rightarrow> string \<Rightarrow> exn + pyval" where
  "get_or_na dp k =
     (case py_get dp k PNone of
        Inl e \<Rightarrow> Inl e
      | Inr a \<Rightarrow> if truthy a then Inr a else Inr (PStr ''N/A''))"

text \<open>
  \<^verbatim>\<open>dp.get(k) or dp.get("info", {}).get(k) or "N/A"\<close> (lines 78-80, 120). \<^verbatim>\<open>or\<close>
  evaluates its right operand only when the left one is falsy.
\<close>

definition get_top_or_info :: "pyval \<Rightarrow> string \<Rightarrow> exn + pyval" where
  "get_top_or_info dp k =
     (case py_get dp k PNone of
        Inl e \<Rightarrow> Inl e
      | Inr a \<Rightarrow>
          if truthy a then Inr a
          else (case py_get dp ''info'' (PDict []) of
                  Inl e \<Rightarrow> Inl e
                | Inr info \<Rightarrow>
                    (case py_get info k PNone of
                       Inl e \<Rightarrow> Inl e
                     | Inr b \<Rightarrow> if truthy b then Inr b else Inr (PStr ''N/A''))))"

section \<open>Normalized records\<close>

text \<open>
  The dictionary display of \<^verbatim>\<open>dataproduct_list\<close> (lines 76-81). Its values are
  evaluated in the order written; the first one that raises ends the evaluation.
\<close>

definition list_format :: "pyval \<Rightarrow> exn + pyval" where
  "list_format dp =
     (case py_get dp ''id'' (PStr ''N/A'') of
        Inl e \<Rightarrow> Inl e
      | Inr i \<Rightarrow>
     (case get_top_or_info dp ''title'' of
        Inl e \<Rightarrow> Inl e
      | Inr n \<Rightarrow>
     (case get_top_or_info dp ''description'' of
        Inl e \<Rightarrow> Inl e
      | Inr d \<Rightarrow>
     (case get_top_or_info dp ''owner'' of
        Inl e \<Rightarrow> Inl e
      | Inr ow \<Rightarrow>
          Inr (PDict [(''id'', i), (''name'', n), (''description'', d), (''owner'', ow)])))))"

text \<open>The dictionary display of \<^verbatim>\<open>dataproduct_search\<close> (lines 117-123).\<close>

definition search_format :: "pyval \<Rightarrow> exn + pyval" where
  "search_format dp =
     (case py_get dp ''id'' (PStr ''N/A'') of
        Inl e \<Rightarrow> Inl e
      | Inr i \<Rightarrow>
     (case get_or_na dp ''name'' of
        Inl e \<Rightarrow> Inl e
      | Inr n \<Rightarrow>
     (case get_top_or_info dp ''description'' of
        Inl e \<Rightarrow> Inl e
      | Inr d \<Rightarrow>
     (case get_or_na dp ''ownerId'' of
        Inl e \<Rightarrow> Inl e
      | Inr oi \<Rightarrow>
     (case get_or_na dp ''ownerName'' of
        Inl e \<Rightarrow> Inl e
      | Inr on \<Rightarrow>
          Inr (PDict [(''id'', i), (''name'', n), (''description'', d),
                      (''ownerId'', oi), (''ownerName'', on)]))))))"

text \<open>
  The loop \<^verbatim>\<open>for dp in data_products: ... formatted_products.append(...)\<close> (lines 74-82
  and 115-124): \<open>acc\<close> is \<^verbatim>\<open>formatted_products\<close>, and an exception in the body leaves
  the loop.
\<close>

fun format_loop :: "(pyval \<Rightarrow> exn + pyval) \<Rightarrow> pyval list \<Rightarrow> pyval list \<Rightarrow> exn + pyval list" where
  "format_loop f [] acc = Inr acc"
| "format_loop f (dp # dps) acc =
     (case f dp of
        Inl e \<Rightarrow> Inl e
      | Inr formatted_product \<Rightarrow> format_loop f dps (acc @ [formatted_product]))"

definition format_products :: "(pyval \<Rightarrow> exn + pyval) \<Rightarrow> pyval \<Rightarrow> exn + pyval" where
  "format_products f data_products =
     (case py_iter data_products of
        Inl e \<Rightarrow> Inl e
      | Inr dps \<Rightarrow>
          (case format_loop f dps [] of
             Inl e \<Rightarrow> Inl e
           | Inr formatted_products \<Rightarrow> Inr (PList formatted_products)))"

section \<open>Collaborators\<close>

text \<open>
  What a tool reaches outside \<^verbatim>\<open>server.py\<close>, as parameters: the constructor of
  \<^verbatim>\<open>DataMeshManagerClient\<close> (\<open>Some e\<close> when it raises \<open>e\<close>), the four awaited client
  methods (the exception raised or the value returned), the statement \<^verbatim>\<open>import yaml\<close>,
  and \<^verbatim>\<open>yaml.dump(_, default_flow_style=False, sort_keys=False)\<close>. Logging has no
  part in any result and is left out.
\<close>

record env =
  client_init :: "exn option"
  get_data_products :: "string option \<Rightarrow> string option \<Rightarrow> string option \<Rightarrow> exn + pyval"
  search :: "string \<Rightarrow> string \<Rightarrow> exn + pyval"
  get_data_product :: "string \<Rightarrow> exn + pyval"
  get_data_contract :: "string \<Rightarrow> exn + pyval"
  import_yaml :: "exn option"
  yaml_dump :: "pyval \<Rightarrow> exn + string"

text \<open>The calls a tool makes on its collaborators, in the order made.\<close>

datatype event =
    Client_init
  | Get_data_products "string option" "string option" "string option"
  | Search string string
  | Get_data_product string
  | Get_data_contract string
  | Import_yaml
  | Yaml_dump pyval

section \<open>The four tools\<close>

text \<open>Lines 62-85: the body of the \<^verbatim>\<open>try\<close> of \<^verbatim>\<open>dataproduct_list\<close>.\<close>

definition dataproduct_list_try ::
  "env \<Rightarrow> string option \<Rightarrow> string option \<Rightarrow> string option \<Rightarrow> (exn + pyval) \<times> event list" where
  "dataproduct_list_try env search_term archetype status =
     (case client_init env of
        Some e \<Rightarrow> (Inl e, [Client_init])
      | None \<Rightarrow>
          ((case get_data_products env search_term archetype status of
              Inl e \<Rightarrow> Inl e
            | Inr data_products \<Rightarrow>
                if \<not> truthy data_products then Inr (PList [])
                else format_products list_format data_products),
           [Client_init, Get_data_products search_term archetype status]))"

text \<open>
  Lines 61-92: \<^verbatim>\<open>dataproduct_list\<close> with its two handlers. An exception that neither
  handler matches leaves the tool (\<open>Inl\<close>).
\<close>

definition dataproduct_list ::
  "env \<Rightarrow> string option \<Rightarrow> string option \<Rightarrow> string option \<Rightarrow> (exn + pyval) \<times> event list" where
  "dataproduct_list env search_term archetype status =
     (case dataproduct_list_try env search_term archetype status of
        (Inr v, tr) \<Rightarrow> (Inr v, tr)
      | (Inl e, tr) \<Rightarrow>
          if exn_class_of e = ValueError
          then (Inr (PList [PDict [(''error'', PStr (str_exn e))]]), tr)
          else if below_Exception (exn_class_of e)
          then (Inr (PList [PDict [(''error'',
                  PStr (''Error fetching data products: '' @ str_exn e))]]), tr)
          else (Inl e, tr))"

text \<open>Lines 106-127: the body of the \<^verbatim>\<open>try\<close> of \<^verbatim>\<open>dataproduct_search\<close>.\<close>

definition dataproduct_search_try :: "env \<Rightarrow> string \<Rightarrow> (exn + pyval) \<times> event list" where
  "dataproduct_search_try env search_term =
     (case client_init env of
        Some e \<Rightarrow> (Inl e, [Client_init])
      | None \<Rightarrow>
          ((case search env search_term ''DATA_PRODUCT'' of
              Inl e \<Rightarrow> Inl e
            | Inr search_results \<Rightarrow>
                (case py_get search_results ''results'' (PList []) of
                   Inl e \<Rightarrow> Inl e
                 | Inr data_products \<Rightarrow>
                     if \<not> truthy data_products then Inr (PList [])
                     else format_products search_format data_products)),
           [Client_init, Search search_term ''DATA_PRODUCT'']))"

text \<open>Lines 105-134: \<^verbatim>\<open>dataproduct_search\<close> with its two handlers.\<close>

definition dataproduct_search :: "env \<Rightarrow> string \<Rightarrow> (exn + pyval) \<times> event list" where
  "dataproduct_search env search_term =
     (case dataproduct_search_try env search_term of
        (Inr v, tr) \<Rightarrow> (Inr v, tr)
      | (Inl e, tr) \<Rightarrow>
          if exn_class_of e = ValueError
          then (Inr (PList [PDict [(''error'', PStr (str_exn e))]]), tr)
          else if below_Exception (exn_class_of e)
          then (Inr (PList [PDict [(''error'',
                  PStr (''Error searching data products: '' @ str_exn e))]]), tr)
          else (Inl e, tr))"

text \<open>
  Lines 157-161 and 189-193: \<^verbatim>\<open>import yaml\<close>, then the dump of the record. The events
  are those added to the trace.
\<close>

definition to_yaml :: "env \<Rightarrow> pyval \<Rightarrow> (exn + pyval) \<times> event list" where
  "to_yaml env record =
     (case import_yaml env of
        Some e \<Rightarrow> (Inl e, [Import_yaml])
      | None \<Rightarrow>
          ((case yaml_dump env record of
              Inl e \<Rightarrow> Inl e
            | Inr yaml_data \<Rightarrow> Inr (PStr yaml_data)),
           [Import_yaml, Yaml_dump record]))"

text \<open>Lines 150-161: the body of the \<^verbatim>\<open>try\<close> of \<^verbatim>\<open>dataproduct_get\<close>.\<close>

definition dataproduct_get_try :: "env \<Rightarrow> string \<Rightarrow> (exn + pyval) \<times> event list" where
  "dataproduct_get_try env data_product_id =
     (case client_init env of
        Some e \<Rightarrow> (Inl e, [Client_init])
      | None \<Rightarrow>
          (case get_data_product env data_product_id of
             Inl e \<Rightarrow> (Inl e, [Client_init, Get_data_product data_product_id])
           | Inr data_product \<Rightarrow>
               if \<not> truthy data_product
               then (Inr (PStr ''Data product not found''),
                     [Client_init, Get_data_product data_product_id])
               else (case to_yaml env data_product of
                       (r, tr) \<Rightarrow> (r, [Client_init, Get_data_product data_product_id] @ tr))))"

text \<open>Lines 149-168: \<^verbatim>\<open>dataproduct_get\<close> with its two handlers.\<close>

definition dataproduct_get :: "env \<Rightarrow> string \<Rightarrow> (exn + pyval) \<times> event list" where
  "dataproduct_get env data_product_id =
     (case dataproduct_get_try env data_product_id of
        (Inr v, tr) \<Rightarrow> (Inr v, tr)
      | (Inl e, tr) \<Rightarrow>
          if exn_class_of e = ValueError
          then (Inr (PStr (''Error: '' @ str_exn e)), tr)
          else if below_Exception (exn_class_of e)
          then (Inr (PStr (''Error fetching data product: '' @ str_exn e)), tr)
          else (Inl e, tr))"

text \<open>Lines 182-193: the body of the \<^verbatim>\<open>try\<close> of \<^verbatim>\<open>datacontract_get\<close>.\<close>

definition datacontract_get_try :: "env \<Rightarrow> string \<Rightarrow> (exn + pyval) \<times> event list" where
  "datacontract_get_try env data_contract_id =
     (case client_init env of
        Some e \<Rightarrow> (Inl e, [Client_init])
      | None \<Rightarrow>
          (case get_data_contract env data_contract_id of
             Inl e \<Rightarrow> (Inl e, [Client_init, Get_data_contract data_contract_id])
           | Inr data_contract \<Rightarrow>
               if \<not> truthy data_contract
               then (Inr (PStr ''Data contract not found''),
                     [Client_init, Get_data_contract data_contract_id])
               else (case to_yaml env data_contract of
                       (r, tr) \<Rightarrow> (r, [Client_init, Get_data_contract data_contract_id] @ tr))))"

text \<open>Lines 181-200: \<^verbatim>\<open>datacontract_get\<close> with its two handlers.\<close>

definition datacontract_get :: "env \<Rightarrow> string \<Rightarrow> (exn + pyval) \<times> event list" where
  "datacontract_get env data_contract_id =
     (case datacontract_get_try env data_contract_id of
        (Inr v, tr) \<Rightarrow> (Inr v, tr)
      | (Inl e, tr) \<Rightarrow>
          if exn_class_of e = ValueError
          then (Inr (PStr (''Error: '' @ str_exn e)), tr)
          else if below_Exception (exn_class_of e)
          then (Inr (PStr (''Error fetching data contract: '' @ str_exn e)), tr)
          else (Inl e, tr))"

section \<open>The field-resolution policy\<close>

text \<open>
  The policy in the specification's words, to compare the normalized records with: of the
  candidate values of an attribute, in order, the first that is present and non-empty, and
  the sentinel \<^verbatim>\<open>"N/A"\<close> when there is none. A candidate is \<open>None\<close> when its path is
  absent from the record; a value is empty when Python takes it for false.
\<close>

fun spec_first_present :: "pyval option list \<Rightarrow> pyval" where
  "spec_first_present [] = PStr ''N/A''"
| "spec_first_present (None # cs) = spec_first_present cs"
| "spec_first_present (Some v # cs) = (if truthy v then v else spec_first_present cs)"

text \<open>The candidate path \<^verbatim>\<open>info.k\<close> of a record: present when \<^verbatim>\<open>info\<close> is a mapping with key \<open>k\<close>.\<close>

definition spec_info_path :: "(string \<times> pyval) list \<Rightarrow> string \<Rightarrow> pyval option" where
  "spec_info_path kvs k =
     (case map_of kvs ''info'' of
        Some (PDict info) \<Rightarrow> map_of info k
      | _ \<Rightarrow> None)"

section \<open>Scripted collaborators\<close>

text \<open>
  The collaborators of one concrete run: the constructor raises \<open>c\<close> (or succeeds), every
  client method gives the outcome \<open>r\<close>, \<^verbatim>\<open>import yaml\<close> succeeds and the dump gives \<open>y\<close>.
\<close>

definition scripted_env :: "exn option \<Rightarrow> exn + pyval \<Rightarrow> string \<Rightarrow> env" where
  "scripted_env c r y =
     \<lparr>client_init = c,
      get_data_products = (\<lambda>search_term archetype status. r),
      search = (\<lambda>search_term resource_type. r),
      get_data_product = (\<lambda>data_product_id. r),
      get_data_contract = (\<lambda>data_contract_id. r),
      import_yaml = None,
      yaml_dump = (\<lambda>record. Inr y)\<rparr>"

section \<open>Outcomes that the handlers catch\<close>

text \<open>
  An outcome of a collaborator that does not get past \<^verbatim>\<open>except Exception\<close>: a returned
  value, or an exception of a class below \<^verbatim>\<open>Exception\<close>.
\<close>

definition caught :: "exn + 'a \<Rightarrow> bool" where
  "caught r = (case r of Inl e \<Rightarrow> below_Exception (exn_class_of e) | Inr v \<Rightarrow> True)"

definition caught_init :: "exn option \<Rightarrow> bool" where
  "caught_init c = (case c of Some e \<Rightarrow> below_Exception (exn_class_of e) | None \<Rightarrow> True)"

section \<open>Normalization of one record\<close>

lemma get_or_na_dict:
  "get_or_na (PDict kvs) k = Inr (spec_first_present [map_of kvs k])"
  by (simp add: get_or_na_def split: option.splits)

lemma get_top_or_info_dict:
  "get_top_or_info (PDict kvs) k = Inr v \<Longrightarrow> v = spec_first_present [map_of kvs k, spec_info_path kvs k]"
  by (auto simp: get_top_or_info_def spec_info_path_def
           split: option.splits sum.splits if_splits pyval.splits)

lemma get_top_or_info_defined:
  "map_of kvs ''info'' = None \<or> (\<exists>info. map_of kvs ''info'' = Some (PDict info)) \<Longrightarrow>
   \<exists>v. get_top_or_info (PDict kvs) k = Inr v"
  by (auto simp: get_top_or_info_def split: option.splits sum.splits if_splits pyval.splits)

lemma list_format_dict:
  assumes "list_format (PDict kvs) = Inr out"
  shows "out = PDict
     [(''id'', case map_of kvs ''id'' of None \<Rightarrow> PStr ''N/A'' | Some v \<Rightarrow> v),
      (''name'', spec_first_present [map_of kvs ''title'', spec_info_path kvs ''title'']),
      (''description'', spec_first_present [map_of kvs ''description'', spec_info_path kvs ''description'']),
      (''owner'', spec_first_present [map_of kvs ''owner'', spec_info_path kvs ''owner''])]"
proof -
  from assms obtain n d ow where
    n: "get_top_or_info (PDict kvs) ''title'' = Inr n" and
    d: "get_top_or_info (PDict kvs) ''description'' = Inr d" and
    ow: "get_top_or_info (PDict kvs) ''owner'' = Inr ow" and
    out: "out = PDict [(''id'', case map_of kvs ''id'' of None \<Rightarrow> PStr ''N/A'' | Some v \<Rightarrow> v),
                       (''name'', n), (''description'', d), (''owner'', ow)]"
    by (auto simp: list_format_def split: sum.splits)
  show ?thesis
    using get_top_or_info_dict [OF n] get_top_or_info_dict [OF d] get_top_or_info_dict [OF ow] out
    by simp
qed

lemma list_format_defined:
  assumes "map_of kvs ''info'' = None \<or> (\<exists>info. map_of kvs ''info'' = Some (PDict info))"
  shows "\<exists>out. list_format (PDict kvs) = Inr out"
  using get_top_or_info_defined [OF assms, of "''title''"]
        get_top_or_info_defined [OF assms, of "''description''"]
        get_top_or_info_defined [OF assms, of "''owner''"]
  by (auto simp: list_format_def)

lemma search_format_dict:
  assumes "search_format (PDict kvs) = Inr out"
  shows "out = PDict
     [(''id'', case map_of kvs ''id'' of None \<Rightarrow> PStr ''N/A'' | Some v \<Rightarrow> v),
      (''name'', spec_first_present [map_of kvs ''name'']),
      (''description'', spec_first_present [map_of kvs ''description'', spec_info_path kvs ''description'']),
      (''ownerId'', spec_first_present [map_of kvs ''ownerId'']),
      (''ownerName'', spec_first_present [map_of kvs ''ownerName''])]"
proof -
  from assms obtain d where
    d: "get_top_or_info (PDict kvs) ''description'' = Inr d" and
    out: "out = PDict [(''id'', case map_of kvs ''id'' of None \<Rightarrow> PStr ''N/A'' | Some v \<Rightarrow> v),
                       (''name'', spec_first_present [map_of kvs ''name'']),
                       (''description'', d),
                       (''ownerId'', spec_first_present [map_of kvs ''ownerId'']),
                       (''ownerName'', spec_first_present [map_of kvs ''ownerName''])]"
    by (auto simp: search_format_def get_or_na_dict split: sum.splits)
  show ?thesis
    using get_top_or_info_dict [OF d] out by simp
qed

lemma search_format_defined:
  assumes "map_of kvs ''info'' = None \<or> (\<exists>info. map_of kvs ''info'' = Some (PDict info))"
  shows "\<exists>out. search_format (PDict kvs) = Inr out"
  using get_top_or_info_defined [OF assms, of "''description''"]
  by (auto simp: search_format_def get_or_na_dict)

lemma spec_first_present_single:
  "Some (spec_first_present [c]) = c \<or> spec_first_present [c] = PStr ''N/A''"
  by (cases c) auto

lemma spec_first_present_truthy: "truthy (spec_first_present cs)"
  by (induction cs rule: spec_first_present.induct) auto

lemma list_format_is_dict: "list_format dp = Inr out \<Longrightarrow> is_dict out"
  by (auto simp: list_format_def split: sum.splits)

lemma search_format_is_dict: "search_format dp = Inr out \<Longrightarrow> is_dict out"
  by (auto simp: search_format_def split: sum.splits)

section \<open>The formatting loop\<close>

lemma format_loop_dicts:
  assumes "\<And>dp out. f dp = Inr out \<Longrightarrow> is_dict out"
  shows "list_all is_dict acc \<Longrightarrow> format_loop f dps acc = Inr outs \<Longrightarrow> list_all is_dict outs"
proof (induction dps arbitrary: acc)
  case Nil
  then show ?case by simp
next
  case (Cons dp dps)
  from Cons.prems(2) obtain out where out: "f dp = Inr out"
    and rest: "format_loop f dps (acc @ [out]) = Inr outs"
    by (auto split: sum.splits)
  from out have "is_dict out" by (rule assms)
  with Cons.prems(1) have "list_all is_dict (acc @ [out])" by simp
  then show ?case using rest by (rule Cons.IH)
qed

lemma format_products_dicts:
  assumes "\<And>dp out. f dp = Inr out \<Longrightarrow> is_dict out"
  shows "format_products f v = Inr out \<Longrightarrow> is_list_of_dict out"
  using format_loop_dicts [where f = f and acc = "[]", OF assms]
  by (auto simp: format_products_def split: sum.splits)

lemma format_loop_map:
  "\<forall>dp\<in>set dps. \<not> isl (f dp) \<Longrightarrow>
   format_loop f dps acc = Inr (acc @ map (\<lambda>dp. projr (f dp)) dps)"
proof (induction dps arbitrary: acc)
  case Nil
  then show ?case by simp
next
  case (Cons dp dps)
  from Cons.prems obtain out where out: "f dp = Inr out"
    by (cases "f dp") auto
  from Cons.prems have "\<forall>dp\<in>set dps. \<not> isl (f dp)" by simp
  then have "format_loop f dps (acc @ [out]) = Inr ((acc @ [out]) @ map (\<lambda>dp. projr (f dp)) dps)"
    by (rule Cons.IH)
  with out show ?case by simp
qed

lemma format_products_map:
  "\<forall>dp\<in>set dps. \<not> isl (f dp) \<Longrightarrow>
   format_products f (PList dps) = Inr (PList (map (\<lambda>dp. projr (f dp)) dps))"
  by (simp add: format_products_def format_loop_map)

section \<open>What the tools raise and return\<close>

lemma py_get_raises: "py_get v k d = Inl e \<Longrightarrow> exn_class_of e = AttributeError"
  by (cases v) (auto simp: no_attribute_def)

lemma get_or_na_raises: "get_or_na dp k = Inl e \<Longrightarrow> exn_class_of e = AttributeError"
  by (auto simp: get_or_na_def split: sum.splits if_splits dest: py_get_raises)

lemma get_top_or_info_raises:
  "get_top_or_info dp k = Inl e \<Longrightarrow> exn_class_of e = AttributeError"
  by (auto simp: get_top_or_info_def split: sum.splits if_splits dest: py_get_raises)

lemma list_format_raises: "list_format dp = Inl e \<Longrightarrow> below_Exception (exn_class_of e)"
  by (auto simp: list_format_def split: sum.splits
           dest!: py_get_raises get_top_or_info_raises)

lemma search_format_raises: "search_format dp = Inl e \<Longrightarrow> below_Exception (exn_class_of e)"
  by (auto simp: search_format_def split: sum.splits
           dest!: py_get_raises get_top_or_info_raises get_or_na_raises)

lemma py_iter_raises: "py_iter v = Inl e \<Longrightarrow> exn_class_of e = TypeError"
  by (cases v) (auto simp: not_iterable_def)

lemma format_loop_raises:
  assumes "\<And>dp e. f dp = Inl e \<Longrightarrow> below_Exception (exn_class_of e)"
  shows "format_loop f dps acc = Inl e \<Longrightarrow> below_Exception (exn_class_of e)"
proof (induction dps arbitrary: acc)
  case Nil
  then show ?case by simp
next
  case (Cons dp dps)
  show ?case
  proof (cases "f dp")
    case (Inl e')
    with Cons.prems have "e' = e" by simp
    with Inl show ?thesis by (simp add: assms)
  next
    case (Inr out)
    with Cons.prems have "format_loop f dps (acc @ [out]) = Inl e" by simp
    then show ?thesis by (rule Cons.IH)
  qed
qed

lemma format_products_raises:
  assumes "\<And>dp e. f dp = Inl e \<Longrightarrow> below_Exception (exn_class_of e)"
  shows "format_products f v = Inl e \<Longrightarrow> below_Exception (exn_class_of e)"
  using format_loop_raises [where f = f and acc = "[]", OF assms]
  by (auto simp: format_products_def split: sum.splits dest!: py_iter_raises)

lemma dataproduct_list_try_caught:
  assumes "caught_init (client_init env)" and "caught (get_data_products env q a s)"
  shows "caught (fst (dataproduct_list_try env q a s))"
  using assms format_products_raises [of list_format, OF list_format_raises]
  by (auto simp: dataproduct_list_try_def caught_def caught_init_def
           split: option.splits sum.splits)

lemma dataproduct_list_try_dicts:
  "fst (dataproduct_list_try env q a s) = Inr v \<Longrightarrow> is_list_of_dict v"
  using format_products_dicts [of list_format, OF list_format_is_dict]
  by (auto simp: dataproduct_list_try_def split: option.splits sum.splits if_splits)

lemma dataproduct_list_total:
  assumes "caught_init (client_init env)" and "caught (get_data_products env q a s)"
  shows "\<exists>v. fst (dataproduct_list env q a s) = Inr v \<and> is_list_of_dict v"
  using dataproduct_list_try_caught [OF assms] dataproduct_list_try_dicts [of env q a s]
  by (cases "dataproduct_list_try env q a s")
     (auto simp: dataproduct_list_def caught_def split: sum.splits)

lemma dataproduct_search_try_caught:
  assumes "caught_init (client_init env)" and "caught (search env t ''DATA_PRODUCT'')"
  shows "caught (fst (dataproduct_search_try env t))"
  using assms format_products_raises [of search_format, OF search_format_raises]
  by (auto simp: dataproduct_search_try_def caught_def caught_init_def
           split: option.splits sum.splits dest!: py_get_raises)

lemma dataproduct_search_try_dicts:
  "fst (dataproduct_search_try env t) = Inr v \<Longrightarrow> is_list_of_dict v"
  using format_products_dicts [of search_format, OF search_format_is_dict]
  by (auto simp: dataproduct_search_try_def split: option.splits sum.splits if_splits)

lemma dataproduct_search_total:
  assumes "caught_init (client_init env)" and "caught (search env t ''DATA_PRODUCT'')"
  shows "\<exists>v. fst (dataproduct_search env t) = Inr v \<and> is_list_of_dict v"
  using dataproduct_search_try_caught [OF assms] dataproduct_search_try_dicts [of env t]
  by (cases "dataproduct_search_try env t")
     (auto simp: dataproduct_search_def caught_def split: sum.splits)

lemma dataproduct_get_total:
  assumes "caught_init (client_init env)" and "caught (get_data_product env i)"
    and "caught_init (import_yaml env)"
    and "\<And>v. get_data_product env i = Inr v \<Longrightarrow> caught (yaml_dump env v)"
  shows "\<exists>v. fst (dataproduct_get env i) = Inr v \<and> is_str v"
  using assms
  by (auto simp: dataproduct_get_def dataproduct_get_try_def to_yaml_def caught_def
                 caught_init_def
           split: option.splits sum.splits)

lemma datacontract_get_total:
  assumes "caught_init (client_init env)" and "caught (get_data_contract env i)"
    and "caught_init (import_yaml env)"
    and "\<And>v. get_data_contract env i = Inr v \<Longrightarrow> caught (yaml_dump env v)"
  shows "\<exists>v. fst (datacontract_get env i) = Inr v \<and> is_str v"
  using assms
  by (auto simp: datacontract_get_def datacontract_get_try_def to_yaml_def caught_def
                 caught_init_def
           split: option.splits sum.splits)

lemma dataproduct_list_propagates:
  assumes "\<not> below_Exception (exn_class_of e)"
    and "client_init env = Some e \<or>
         client_init env = None \<and> get_data_products env q a s = Inl e"
  shows "fst (dataproduct_list env q a s) = Inl e"
  using assms by (auto simp: dataproduct_list_def dataproduct_list_try_def)

lemma dataproduct_search_propagates:
  assumes "\<not> below_Exception (exn_class_of e)"
    and "client_init env = Some e \<or>
         client_init env = None \<and> search env t ''DATA_PRODUCT'' = Inl e"
  shows "fst (dataproduct_search env t) = Inl e"
  using assms by (auto simp: dataproduct_search_def dataproduct_search_try_def)

lemma dataproduct_get_propagates:
  assumes "\<not> below_Exception (exn_class_of e)"
    and "client_init env = Some e \<or>
         client_init env = None \<and> get_data_product env i = Inl e"
  shows "fst (dataproduct_get env i) = Inl e"
  using assms by (auto simp: dataproduct_get_def dataproduct_get_try_def)

lemma datacontract_get_propagates:
  assumes "\<not> below_Exception (exn_class_of e)"
    and "client_init env = Some e \<or>
         client_init env = None \<and> get_data_contract env i = Inl e"
  shows "fst (datacontract_get env i) = Inl e"
  using assms by (auto simp: datacontract_get_def datacontract_get_try_def)

lemma get_top_or_info_top:
  "map_of kvs k = Some d \<Longrightarrow> truthy d \<Longrightarrow> get_top_or_info (PDict kvs) k = Inr d"
  by (simp add: get_top_or_info_def)

section \<open>The claims\<close>

text \<open>
  C1 (as amended). Whenever \<^verbatim>\<open>dataproduct_list\<close> normalizes a record, \<^verbatim>\<open>name\<close>,
  \<^verbatim>\<open>description\<close> and \<^verbatim>\<open>owner\<close> are the first present and non-empty value among the
  top-level key (\<^verbatim>\<open>title\<close>, \<^verbatim>\<open>description\<close>, \<^verbatim>\<open>owner\<close>) and the same key under
  \<^verbatim>\<open>info\<close>, and \<^verbatim>\<open>"N/A"\<close> when there is none; \<^verbatim>\<open>id\<close> is the top-level \<^verbatim>\<open>id\<close> whenever
  that key is present, whatever its value, and \<^verbatim>\<open>"N/A"\<close> when the key is absent. A record
  whose \<^verbatim>\<open>info\<close> is absent or a mapping is always normalized.
\<close>

theorem list_format_fields:
  "((map_of kvs ''info'' = None \<or> (\<exists>info. map_of kvs ''info'' = Some (PDict info))) \<longrightarrow>
      (\<exists>out. list_format (PDict kvs) = Inr out)) \<and>
   (\<forall>out. list_format (PDict kvs) = Inr out \<longrightarrow>
      out = PDict
        [(''id'', case map_of kvs ''id'' of None \<Rightarrow> PStr ''N/A'' | Some v \<Rightarrow> v),
         (''name'', spec_first_present [map_of kvs ''title'', spec_info_path kvs ''title'']),
         (''description'',
            spec_first_present [map_of kvs ''description'', spec_info_path kvs ''description'']),
         (''owner'', spec_first_present [map_of kvs ''owner'', spec_info_path kvs ''owner''])])"
  using list_format_defined [of kvs] list_format_dict [of kvs] by blast

text \<open>
  The theorem at the record of the specification's scenario: the empty description
  becomes \<^verbatim>\<open>"N/A"\<close>.
\<close>

theorem list_format_fields_witness:
  "map_of [(''id'', PStr ''dp-1''), (''title'', PStr ''Sales Data''),
           (''description'', PStr ''''), (''owner'', PStr ''team-a'')] ''info'' = None \<and>
   list_format (PDict [(''id'', PStr ''dp-1''), (''title'', PStr ''Sales Data''),
                       (''description'', PStr ''''), (''owner'', PStr ''team-a'')]) =
     Inr (PDict [(''id'', PStr ''dp-1''), (''name'', PStr ''Sales Data''),
                 (''description'', PStr ''N/A''), (''owner'', PStr ''team-a'')])"
  using list_format_fields [of "[(''id'', PStr ''dp-1''), (''title'', PStr ''Sales Data''),
                                 (''description'', PStr ''''), (''owner'', PStr ''team-a'')]"]
  by (auto simp: spec_info_path_def)

text \<open>
  C1 as stated fails for \<^verbatim>\<open>id\<close>: on the record \<^verbatim>\<open>{"id": ""}\<close> the tool returns the empty
  string as \<^verbatim>\<open>id\<close>, where the policy over the candidates \<^verbatim>\<open>id\<close> and \<^verbatim>\<open>info.id\<close> gives
  \<^verbatim>\<open>"N/A"\<close>.
\<close>

theorem list_format_id_counterexample:
  "fst (dataproduct_list (scripted_env None (Inr (PList [PDict [(''id'', PStr '''')]])) ''yaml'')
          None None None) =
     Inr (PList [PDict [(''id'', PStr ''''), (''name'', PStr ''N/A''),
                        (''description'', PStr ''N/A''), (''owner'', PStr ''N/A'')]]) \<and>
   spec_first_present [map_of [(''id'', PStr '''')] ''id'', spec_info_path [(''id'', PStr '''')] ''id''] =
     PStr ''N/A''"
  by (simp add: dataproduct_list_def dataproduct_list_try_def scripted_env_def
                format_products_def list_format_def get_top_or_info_def spec_info_path_def)

text \<open>
  C2 (as amended). A \<^verbatim>\<open>ValueError\<close> raised by the constructor of the client or by the client
  call is rendered with its own message: \<^verbatim>\<open>dataproduct_list\<close> and \<^verbatim>\<open>dataproduct_search\<close> return
  \<^verbatim>\<open>[{"error": <message>}]\<close> with nothing added, \<^verbatim>\<open>dataproduct_get\<close> and \<^verbatim>\<open>datacontract_get\<close>
  return \<^verbatim>\<open>"Error: "\<close> followed by the message.
\<close>

theorem configuration_error_message:
  assumes "exn_class_of e = ValueError"
  shows "(client_init env = Some e \<or>
            client_init env = None \<and> get_data_products env q a s = Inl e \<longrightarrow>
          fst (dataproduct_list env q a s) = Inr (PList [PDict [(''error'', PStr (str_exn e))]])) \<and>
         (client_init env = Some e \<or>
            client_init env = None \<and> search env t ''DATA_PRODUCT'' = Inl e \<longrightarrow>
          fst (dataproduct_search env t) = Inr (PList [PDict [(''error'', PStr (str_exn e))]])) \<and>
         (client_init env = Some e \<or>
            client_init env = None \<and> get_data_product env i = Inl e \<longrightarrow>
          fst (dataproduct_get env i) = Inr (PStr (''Error: '' @ str_exn e))) \<and>
         (client_init env = Some e \<or>
            client_init env = None \<and> get_data_contract env j = Inl e \<longrightarrow>
          fst (datacontract_get env j) = Inr (PStr (''Error: '' @ str_exn e)))"
proof -
  have l: "client_init env = Some e \<or>
            client_init env = None \<and> get_data_products env q a s = Inl e \<Longrightarrow>
          fst (dataproduct_list env q a s) = Inr (PList [PDict [(''error'', PStr (str_exn e))]])"
    using assms by (auto simp: dataproduct_list_def dataproduct_list_try_def)
  have s: "client_init env = Some e \<or>
            client_init env = None \<and> search env t ''DATA_PRODUCT'' = Inl e \<Longrightarrow>
          fst (dataproduct_search env t) = Inr (PList [PDict [(''error'', PStr (str_exn e))]])"
    using assms by (auto simp: dataproduct_search_def dataproduct_search_try_def)
  have p: "client_init env = Some e \<or>
            client_init env = None \<and> get_data_product env i = Inl e \<Longrightarrow>
          fst (dataproduct_get env i) = Inr (PStr (''Error: '' @ str_exn e))"
    using assms by (auto simp: dataproduct_get_def dataproduct_get_try_def)
  have c: "client_init env = Some e \<or>
            client_init env = None \<and> get_data_contract env j = Inl e \<Longrightarrow>
          fst (datacontract_get env j) = Inr (PStr (''Error: '' @ str_exn e))"
    using assms by (auto simp: datacontract_get_def datacontract_get_try_def)
  from l s p c show ?thesis by blast
qed

text \<open>
  The four tools at a client that cannot be constructed for lack of configuration, and at
  one whose call raises the same error.
\<close>

theorem configuration_error_message_witness:
  "exn_class_of (Exn ValueError ''API key missing'') = ValueError \<and>
   client_init (scripted_env (Some (Exn ValueError ''API key missing'')) (Inr PNone) ''yaml'') =
     Some (Exn ValueError ''API key missing'') \<and>
   fst (dataproduct_list (scripted_env (Some (Exn ValueError ''API key missing'')) (Inr PNone) ''yaml'')
          None None None) = Inr (PList [PDict [(''error'', PStr ''API key missing'')]]) \<and>
   fst (dataproduct_search (scripted_env (Some (Exn ValueError ''API key missing'')) (Inr PNone) ''yaml'')
          ''sales'') = Inr (PList [PDict [(''error'', PStr ''API key missing'')]]) \<and>
   fst (dataproduct_get (scripted_env (Some (Exn ValueError ''API key missing'')) (Inr PNone) ''yaml'')
          ''dp-1'') = Inr (PStr ''Error: API key missing'') \<and>
   fst (datacontract_get (scripted_env (Some (Exn ValueError ''API key missing'')) (Inr PNone) ''yaml'')
          ''dc-1'') = Inr (PStr ''Error: API key missing'') \<and>
   client_init (scripted_env None (Inl (Exn ValueError ''API key missing'')) ''yaml'') = None \<and>
   get_data_products (scripted_env None (Inl (Exn ValueError ''API key missing'')) ''yaml'')
     None None None = Inl (Exn ValueError ''API key missing'') \<and>
   fst (dataproduct_list (scripted_env None (Inl (Exn ValueError ''API key missing'')) ''yaml'')
          None None None) = Inr (PList [PDict [(''error'', PStr ''API key missing'')]]) \<and>
   fst (dataproduct_search (scripted_env None (Inl (Exn ValueError ''API key missing'')) ''yaml'')
          ''sales'') = Inr (PList [PDict [(''error'', PStr ''API key missing'')]]) \<and>
   fst (dataproduct_get (scripted_env None (Inl (Exn ValueError ''API key missing'')) ''yaml'')
          ''dp-1'') = Inr (PStr ''Error: API key missing'') \<and>
   fst (datacontract_get (scripted_env None (Inl (Exn ValueError ''API key missing'')) ''yaml'')
          ''dc-1'') = Inr (PStr ''Error: API key missing'')"
  using configuration_error_message
          [of "Exn ValueError ''API key missing''"
              "scripted_env (Some (Exn ValueError ''API key missing'')) (Inr PNone) ''yaml''"
              None None None "''sales''" "''dp-1''" "''dc-1''"]
        configuration_error_message
          [of "Exn ValueError ''API key missing''"
              "scripted_env None (Inl (Exn ValueError ''API key missing'')) ''yaml''"
              None None None "''sales''" "''dp-1''" "''dc-1''"]
  by (simp add: scripted_env_def)

text \<open>
  C2 as stated fails for the two get-by-id tools: they do not return the bare message, they
  put \<^verbatim>\<open>"Error: "\<close> before it (lines 165 and 197).
\<close>

theorem get_by_id_prefix_counterexample:
  "fst (dataproduct_get (scripted_env (Some (Exn ValueError ''API key missing'')) (Inr PNone) ''yaml'')
          ''dp-1'') = Inr (PStr ''Error: API key missing'') \<and>
   fst (datacontract_get (scripted_env (Some (Exn ValueError ''API key missing'')) (Inr PNone) ''yaml'')
          ''dc-1'') = Inr (PStr ''Error: API key missing'') \<and>
   fst (dataproduct_get (scripted_env (Some (Exn ValueError ''API key missing'')) (Inr PNone) ''yaml'')
          ''dp-1'') \<noteq> Inr (PStr ''API key missing'') \<and>
   fst (datacontract_get (scripted_env (Some (Exn ValueError ''API key missing'')) (Inr PNone) ''yaml'')
          ''dc-1'') \<noteq> Inr (PStr ''API key missing'')"
  by (simp add: dataproduct_get_def dataproduct_get_try_def
                datacontract_get_def datacontract_get_try_def scripted_env_def)

text \<open>
  C3 (as amended). When the constructor, the client call, \<^verbatim>\<open>import yaml\<close> and the dump
  each return a value or raise an exception of a class below \<^verbatim>\<open>Exception\<close>, each tool
  returns a value and raises nothing: \<^verbatim>\<open>dataproduct_list\<close> and \<^verbatim>\<open>dataproduct_search\<close>
  a list of dictionaries, \<^verbatim>\<open>dataproduct_get\<close> and \<^verbatim>\<open>datacontract_get\<close> a string. An
  exception of the constructor or of the client call whose class is not below
  \<^verbatim>\<open>Exception\<close> (a cancellation, an interpreter exit) is not caught and leaves the tool.
\<close>

theorem tools_return_declared_type:
  "(caught_init (client_init env) \<and> caught (get_data_products env q a s) \<longrightarrow>
      (\<exists>v. fst (dataproduct_list env q a s) = Inr v \<and> is_list_of_dict v)) \<and>
   (caught_init (client_init env) \<and> caught (search env t ''DATA_PRODUCT'') \<longrightarrow>
      (\<exists>v. fst (dataproduct_search env t) = Inr v \<and> is_list_of_dict v)) \<and>
   (caught_init (client_init env) \<and> caught (get_data_product env i) \<and>
    caught_init (import_yaml env) \<and>
    (\<forall>v. get_data_product env i = Inr v \<longrightarrow> caught (yaml_dump env v)) \<longrightarrow>
      (\<exists>v. fst (dataproduct_get env i) = Inr v \<and> is_str v)) \<and>
   (caught_init (client_init env) \<and> caught (get_data_contract env j) \<and>
    caught_init (import_yaml env) \<and>
    (\<forall>v. get_data_contract env j = Inr v \<longrightarrow> caught (yaml_dump env v)) \<longrightarrow>
      (\<exists>v. fst (datacontract_get env j) = Inr v \<and> is_str v)) \<and>
   (\<not> below_Exception (exn_class_of e) \<and>
    (client_init env = Some e \<or>
     client_init env = None \<and> get_data_products env q a s = Inl e) \<longrightarrow>
      fst (dataproduct_list env q a s) = Inl e) \<and>
   (\<not> below_Exception (exn_class_of e) \<and>
    (client_init env = Some e \<or>
     client_init env = None \<and> search env t ''DATA_PRODUCT'' = Inl e) \<longrightarrow>
      fst (dataproduct_search env t) = Inl e) \<and>
   (\<not> below_Exception (exn_class_of e) \<and>
    (client_init env = Some e \<or>
     client_init env = None \<and> get_data_product env i = Inl e) \<longrightarrow>
      fst (dataproduct_get env i) = Inl e) \<and>
   (\<not> below_Exception (exn_class_of e) \<and>
    (client_init env = Some e \<or>
     client_init env = None \<and> get_data_contract env j = Inl e) \<longrightarrow>
      fst (datacontract_get env j) = Inl e)"
  using dataproduct_list_total [of env q a s] dataproduct_search_total [of env t]
        dataproduct_get_total [of env i] datacontract_get_total [of env j]
        dataproduct_list_propagates [of e env q a s]
        dataproduct_search_propagates [of e env t]
        dataproduct_get_propagates [of e env i]
        datacontract_get_propagates [of e env j]
  by blast

text \<open>
  The four tools at a client whose call times out, which they turn into an error result,
  and at a client whose call is cancelled, which they let through.
\<close>

theorem tools_return_declared_type_witness:
  "caught_init (client_init (scripted_env None (Inl (Exn OtherException ''timed out'')) ''yaml'')) \<and>
   caught (get_data_products (scripted_env None (Inl (Exn OtherException ''timed out'')) ''yaml'')
             None None None) \<and>
   caught_init (import_yaml (scripted_env None (Inl (Exn OtherException ''timed out'')) ''yaml'')) \<and>
   fst (dataproduct_list (scripted_env None (Inl (Exn OtherException ''timed out'')) ''yaml'')
          None None None) =
     Inr (PList [PDict [(''error'', PStr ''Error fetching data products: timed out'')]]) \<and>
   fst (dataproduct_search (scripted_env None (Inl (Exn OtherException ''timed out'')) ''yaml'')
          ''sales'') =
     Inr (PList [PDict [(''error'', PStr ''Error searching data products: timed out'')]]) \<and>
   fst (dataproduct_get (scripted_env None (Inl (Exn OtherException ''timed out'')) ''yaml'')
          ''dp-1'') = Inr (PStr ''Error fetching data product: timed out'') \<and>
   fst (datacontract_get (scripted_env None (Inl (Exn OtherException ''timed out'')) ''yaml'')
          ''dc-1'') = Inr (PStr ''Error fetching data contract: timed out'') \<and>
   is_list_of_dict (PList [PDict [(''error'', PStr ''Error fetching data products: timed out'')]]) \<and>
   is_str (PStr ''Error fetching data product: timed out'') \<and>
   \<not> below_Exception (exn_class_of (Exn BaseExceptionOnly '''')) \<and>
   get_data_products (scripted_env None (Inl (Exn BaseExceptionOnly '''')) ''yaml'')
     None None None = Inl (Exn BaseExceptionOnly '''') \<and>
   fst (dataproduct_list (scripted_env None (Inl (Exn BaseExceptionOnly '''')) ''yaml'')
          None None None) = Inl (Exn BaseExceptionOnly '''') \<and>
   fst (dataproduct_search (scripted_env None (Inl (Exn BaseExceptionOnly '''')) ''yaml'')
          ''sales'') = Inl (Exn BaseExceptionOnly '''') \<and>
   fst (dataproduct_get (scripted_env None (Inl (Exn BaseExceptionOnly '''')) ''yaml'')
          ''dp-1'') = Inl (Exn BaseExceptionOnly '''') \<and>
   fst (datacontract_get (scripted_env None (Inl (Exn BaseExceptionOnly '''')) ''yaml'')
          ''dc-1'') = Inl (Exn BaseExceptionOnly '''')"
  using tools_return_declared_type
          [of "scripted_env None (Inl (Exn OtherException ''timed out'')) ''yaml''"
              None None None "''sales''" "''dp-1''" "''dc-1''" "Exn BaseExceptionOnly ''''"]
        tools_return_declared_type
          [of "scripted_env None (Inl (Exn BaseExceptionOnly '''')) ''yaml''"
              None None None "''sales''" "''dp-1''" "''dc-1''" "Exn BaseExceptionOnly ''''"]
  by (simp add: scripted_env_def caught_def caught_init_def
                dataproduct_list_def dataproduct_list_try_def
                dataproduct_search_def dataproduct_search_try_def
                dataproduct_get_def dataproduct_get_try_def
                datacontract_get_def datacontract_get_try_def)

text \<open>
  C3 as stated fails for an exception outside \<^verbatim>\<open>Exception\<close>: when the awaited client
  call is cancelled (\<^verbatim>\<open>asyncio.CancelledError\<close>, whose text is empty), neither handler
  matches and the exception leaves \<^verbatim>\<open>dataproduct_list\<close> and \<^verbatim>\<open>dataproduct_get\<close>.
\<close>

theorem cancellation_propagates_counterexample:
  "fst (dataproduct_list (scripted_env None (Inl (Exn BaseExceptionOnly '''')) ''yaml'')
          (Some ''sales'') None None) = Inl (Exn BaseExceptionOnly '''') \<and>
   fst (dataproduct_get (scripted_env None (Inl (Exn BaseExceptionOnly '''')) ''yaml'')
          ''dp-1'') = Inl (Exn BaseExceptionOnly '''')"
  by (simp add: dataproduct_list_def dataproduct_list_try_def
                dataproduct_get_def dataproduct_get_try_def scripted_env_def)

text \<open>
  C4. When the client reports not-found (returns \<^verbatim>\<open>None\<close>), \<^verbatim>\<open>dataproduct_get\<close> returns
  exactly \<^verbatim>\<open>"Data product not found"\<close> and \<^verbatim>\<open>datacontract_get\<close> exactly
  \<^verbatim>\<open>"Data contract not found"\<close>, and neither calls the serializer.
\<close>

theorem not_found_literal:
  assumes "client_init env = None"
  shows "(get_data_product env i = Inr PNone \<longrightarrow>
            fst (dataproduct_get env i) = Inr (PStr ''Data product not found'') \<and>
            (\<forall>v. Yaml_dump v \<notin> set (snd (dataproduct_get env i)))) \<and>
         (get_data_contract env i = Inr PNone \<longrightarrow>
            fst (datacontract_get env i) = Inr (PStr ''Data contract not found'') \<and>
            (\<forall>v. Yaml_dump v \<notin> set (snd (datacontract_get env i))))"
  using assms
  by (simp add: dataproduct_get_def dataproduct_get_try_def
                datacontract_get_def datacontract_get_try_def)

text \<open>The scenario of the specification: \<^verbatim>\<open>"dp-404"\<close>, which the registry does not have.\<close>

theorem not_found_literal_witness:
  "client_init (scripted_env None (Inr PNone) ''yaml'') = None \<and>
   get_data_product (scripted_env None (Inr PNone) ''yaml'') ''dp-404'' = Inr PNone \<and>
   get_data_contract (scripted_env None (Inr PNone) ''yaml'') ''dp-404'' = Inr PNone \<and>
   fst (dataproduct_get (scripted_env None (Inr PNone) ''yaml'') ''dp-404'') =
     Inr (PStr ''Data product not found'') \<and>
   fst (datacontract_get (scripted_env None (Inr PNone) ''yaml'') ''dp-404'') =
     Inr (PStr ''Data contract not found'') \<and>
   (\<forall>v. Yaml_dump v \<notin> set (snd (dataproduct_get (scripted_env None (Inr PNone) ''yaml'') ''dp-404''))) \<and>
   (\<forall>v. Yaml_dump v \<notin> set (snd (datacontract_get (scripted_env None (Inr PNone) ''yaml'') ''dp-404'')))"
  using not_found_literal [of "scripted_env None (Inr PNone) ''yaml''" "''dp-404''"]
  by (simp add: scripted_env_def)



text \<open>
  C6 (as amended). Every raw search record whose \<^verbatim>\<open>info\<close> is absent or a mapping, or
  whose top-level \<^verbatim>\<open>description\<close> is non-empty, is normalized by
  \<^verbatim>\<open>dataproduct_search\<close>, and a normalized record has the keys \<^verbatim>\<open>id\<close>, \<^verbatim>\<open>name\<close>,
  \<^verbatim>\<open>description\<close>, \<^verbatim>\<open>ownerId\<close> and \<^verbatim>\<open>ownerName\<close>, in this order; \<^verbatim>\<open>ownerId\<close> and
  \<^verbatim>\<open>ownerName\<close> are each the raw record's value or \<^verbatim>\<open>"N/A"\<close>, and there is no key
  \<^verbatim>\<open>owner\<close>.
\<close>

theorem search_format_owner_fields:
  "((map_of kvs ''info'' = None \<or> (\<exists>info. map_of kvs ''info'' = Some (PDict info)) \<or>
     (\<exists>d. map_of kvs ''description'' = Some d \<and> truthy d)) \<longrightarrow>
      (\<exists>out. search_format (PDict kvs) = Inr (PDict out))) \<and>
   (\<forall>out. search_format (PDict kvs) = Inr (PDict out) \<longrightarrow>
      out =
        [(''id'', case map_of kvs ''id'' of None \<Rightarrow> PStr ''N/A'' | Some v \<Rightarrow> v),
         (''name'', spec_first_present [map_of kvs ''name'']),
         (''description'',
            spec_first_present [map_of kvs ''description'', spec_info_path kvs ''description'']),
         (''ownerId'', spec_first_present [map_of kvs ''ownerId'']),
         (''ownerName'', spec_first_present [map_of kvs ''ownerName''])] \<and>
      map fst out = [''id'', ''name'', ''description'', ''ownerId'', ''ownerName''] \<and>
      map_of out ''ownerId'' = Some (spec_first_present [map_of kvs ''ownerId'']) \<and>
      map_of out ''ownerName'' = Some (spec_first_present [map_of kvs ''ownerName'']) \<and>
      (map_of out ''ownerId'' = map_of kvs ''ownerId'' \<or>
       map_of out ''ownerId'' = Some (PStr ''N/A'')) \<and>
      (map_of out ''ownerName'' = map_of kvs ''ownerName'' \<or>
       map_of out ''ownerName'' = Some (PStr ''N/A'')) \<and>
      map_of out ''owner'' = None)"
proof (intro conjI allI impI)
  assume dom: "map_of kvs ''info'' = None \<or> (\<exists>info. map_of kvs ''info'' = Some (PDict info)) \<or>
     (\<exists>d. map_of kvs ''description'' = Some d \<and> truthy d)"
  have "\<exists>out. search_format (PDict kvs) = Inr out"
  proof (cases "\<exists>d. map_of kvs ''description'' = Some d \<and> truthy d")
    case True
    then obtain d where "map_of kvs ''description'' = Some d" and "truthy d" by blast
    then have "get_top_or_info (PDict kvs) ''description'' = Inr d"
      by (rule get_top_or_info_top)
    then show ?thesis by (simp add: search_format_def get_or_na_dict)
  next
    case False
    with dom have "map_of kvs ''info'' = None \<or> (\<exists>info. map_of kvs ''info'' = Some (PDict info))"
      by blast
    then show ?thesis by (rule search_format_defined)
  qed
  then obtain out where out: "search_format (PDict kvs) = Inr out" by blast
  from search_format_dict [OF out] out
  show "\<exists>out. search_format (PDict kvs) = Inr (PDict out)" by blast
next
  fix out
  assume run: "search_format (PDict kvs) = Inr (PDict out)"
  have eq: "PDict out = PDict
     [(''id'', case map_of kvs ''id'' of None \<Rightarrow> PStr ''N/A'' | Some v \<Rightarrow> v),
      (''name'', spec_first_present [map_of kvs ''name'']),
      (''description'',
         spec_first_present [map_of kvs ''description'', spec_info_path kvs ''description'']),
      (''ownerId'', spec_first_present [map_of kvs ''ownerId'']),
      (''ownerName'', spec_first_present [map_of kvs ''ownerName''])]"
    using run by (rule search_format_dict)
  from eq show "out =
     [(''id'', case map_of kvs ''id'' of None \<Rightarrow> PStr ''N/A'' | Some v \<Rightarrow> v),
      (''name'', spec_first_present [map_of kvs ''name'']),
      (''description'',
         spec_first_present [map_of kvs ''description'', spec_info_path kvs ''description'']),
      (''ownerId'', spec_first_present [map_of kvs ''ownerId'']),
      (''ownerName'', spec_first_present [map_of kvs ''ownerName''])]" by simp
  from eq show "map fst out = [''id'', ''name'', ''description'', ''ownerId'', ''ownerName'']"
    by auto
  from eq show "map_of out ''ownerId'' = Some (spec_first_present [map_of kvs ''ownerId''])"
    by auto
  from eq show "map_of out ''ownerName'' = Some (spec_first_present [map_of kvs ''ownerName''])"
    by auto
  from eq show "map_of out ''ownerId'' = map_of kvs ''ownerId'' \<or>
       map_of out ''ownerId'' = Some (PStr ''N/A'')"
    using spec_first_present_single [of "map_of kvs ''ownerId''"] by auto
  from eq show "map_of out ''ownerName'' = map_of kvs ''ownerName'' \<or>
       map_of out ''ownerName'' = Some (PStr ''N/A'')"
    using spec_first_present_single [of "map_of kvs ''ownerName''"] by auto
  from eq show "map_of out ''owner'' = None" by auto
qed

text \<open>
  The theorem at a search result without \<^verbatim>\<open>info\<close> that even carries a key \<^verbatim>\<open>owner\<close>:
  it is normalized, and \<^verbatim>\<open>owner\<close> is not copied.
\<close>

theorem search_format_owner_fields_witness:
  "map_of [(''id'', PStr ''dp-1''), (''name'', PStr ''Sales Data''),
           (''ownerId'', PStr ''team-a''), (''owner'', PStr ''x'')] ''info'' = None \<and>
   search_format (PDict [(''id'', PStr ''dp-1''), (''name'', PStr ''Sales Data''),
                         (''ownerId'', PStr ''team-a''), (''owner'', PStr ''x'')]) =
     Inr (PDict [(''id'', PStr ''dp-1''), (''name'', PStr ''Sales Data''),
                 (''description'', PStr ''N/A''), (''ownerId'', PStr ''team-a''),
                 (''ownerName'', PStr ''N/A'')]) \<and>
   map_of [(''id'', PStr ''dp-1''), (''name'', PStr ''Sales Data''),
           (''description'', PStr ''N/A''), (''ownerId'', PStr ''team-a''),
           (''ownerName'', PStr ''N/A'')] ''owner'' = None"
  using search_format_owner_fields
          [of "[(''id'', PStr ''dp-1''), (''name'', PStr ''Sales Data''),
                (''ownerId'', PStr ''team-a''), (''owner'', PStr ''x'')]"]
  by (auto simp: spec_info_path_def)

text \<open>
  C6 as stated fails on a search record that is not normalized: with \<^verbatim>\<open>"info": null\<close>
  and no \<^verbatim>\<open>description\<close>, \<^verbatim>\<open>dp.get("info", {}).get("description")\<close> raises
  \<^verbatim>\<open>AttributeError\<close> and the tool returns an error marker, which has neither
  \<^verbatim>\<open>ownerId\<close> nor \<^verbatim>\<open>ownerName\<close>.
\<close>

theorem search_info_null_counterexample:
  "fst (dataproduct_search (scripted_env None (Inr (PDict [(''results'', PList
      [PDict [(''id'', PStr ''dp-1''), (''ownerId'', PStr ''u-7''),
              (''ownerName'', PStr ''Team A''), (''info'', PNone)]])])) ''yaml'')
      ''sales'') =
     Inr (PList [PDict [(''error'', PStr (''Error searching data products: '' @
        quoted ''NoneType'' @ '' object has no attribute '' @ quoted ''get''))]]) \<and>
   map_of [(''error'', PStr (''Error searching data products: '' @
        quoted ''NoneType'' @ '' object has no attribute '' @ quoted ''get''))] ''ownerId'' = None \<and>
   map_of [(''error'', PStr (''Error searching data products: '' @
        quoted ''NoneType'' @ '' object has no attribute '' @ quoted ''get''))] ''ownerName'' = None"
  by (simp add: dataproduct_search_def dataproduct_search_try_def scripted_env_def
                format_products_def search_format_def get_top_or_info_def get_or_na_def
                no_attribute_def)

text \<open>
  C8 (as amended). When the upstream sequence is not empty and every raw record in it
  normalizes without raising, \<^verbatim>\<open>dataproduct_list\<close> and \<^verbatim>\<open>dataproduct_search\<close> return one
  normalized record per raw record, in the order received, each the image of its own raw
  record under \<^verbatim>\<open>list_format\<close> (resp. \<^verbatim>\<open>search_format\<close>).
\<close>

theorem records_in_order:
  assumes "client_init env = None" and "dps \<noteq> []"
  shows "(get_data_products env q a s = Inr (PList dps) \<and>
            (\<forall>dp\<in>set dps. \<not> isl (list_format dp)) \<longrightarrow>
          fst (dataproduct_list env q a s) =
            Inr (PList (map (\<lambda>dp. projr (list_format dp)) dps))) \<and>
         (search env t ''DATA_PRODUCT'' = Inr (PDict kvs) \<and>
            map_of kvs ''results'' = Some (PList dps) \<and>
            (\<forall>dp\<in>set dps. \<not> isl (search_format dp)) \<longrightarrow>
          fst (dataproduct_search env t) =
            Inr (PList (map (\<lambda>dp. projr (search_format dp)) dps)))"
  using assms
  by (auto simp: dataproduct_list_def dataproduct_list_try_def
                 dataproduct_search_def dataproduct_search_try_def format_products_map)

text \<open>
  Two listed products, the second with its attributes under \<^verbatim>\<open>info\<close>, and two search
  results.
\<close>

theorem records_in_order_witness:
  "client_init (scripted_env None (Inr (PList
      [PDict [(''id'', PStr ''dp-1''), (''title'', PStr ''Sales Data''),
              (''description'', PStr ''''), (''owner'', PStr ''team-a'')],
       PDict [(''id'', PStr ''dp-2''),
              (''info'', PDict [(''title'', PStr ''Orders''), (''owner'', PStr ''team-b'')])]]))
      ''yaml'') = None \<and>
   \<not> isl (list_format (PDict [(''id'', PStr ''dp-1''), (''title'', PStr ''Sales Data''),
                              (''description'', PStr ''''), (''owner'', PStr ''team-a'')])) \<and>
   \<not> isl (list_format (PDict [(''id'', PStr ''dp-2''),
      (''info'', PDict [(''title'', PStr ''Orders''), (''owner'', PStr ''team-b'')])])) \<and>
   fst (dataproduct_list (scripted_env None (Inr (PList
      [PDict [(''id'', PStr ''dp-1''), (''title'', PStr ''Sales Data''),
              (''description'', PStr ''''), (''owner'', PStr ''team-a'')],
       PDict [(''id'', PStr ''dp-2''),
              (''info'', PDict [(''title'', PStr ''Orders''), (''owner'', PStr ''team-b'')])]]))
      ''yaml'') (Some ''sales'') None None) =
     Inr (PList
      [PDict [(''id'', PStr ''dp-1''), (''name'', PStr ''Sales Data''),
              (''description'', PStr ''N/A''), (''owner'', PStr ''team-a'')],
       PDict [(''id'', PStr ''dp-2''), (''name'', PStr ''Orders''),
              (''description'', PStr ''N/A''), (''owner'', PStr ''team-b'')]]) \<and>
   \<not> isl (search_format (PDict [(''id'', PStr ''dp-1''), (''name'', PStr ''Sales Data''),
                                (''ownerId'', PStr ''u-7'')])) \<and>
   \<not> isl (search_format (PDict [(''id'', PStr ''dp-2''), (''ownerName'', PStr ''Team B'')])) \<and>
   fst (dataproduct_search (scripted_env None (Inr (PDict [(''results'', PList
      [PDict [(''id'', PStr ''dp-1''), (''name'', PStr ''Sales Data''),
              (''ownerId'', PStr ''u-7'')],
       PDict [(''id'', PStr ''dp-2''), (''ownerName'', PStr ''Team B'')]])]))
      ''yaml'') ''sales'') =
     Inr (PList
      [PDict [(''id'', PStr ''dp-1''), (''name'', PStr ''Sales Data''),
              (''description'', PStr ''N/A''), (''ownerId'', PStr ''u-7''),
              (''ownerName'', PStr ''N/A'')],
       PDict [(''id'', PStr ''dp-2''), (''name'', PStr ''N/A''),
              (''description'', PStr ''N/A''), (''ownerId'', PStr ''N/A''),
              (''ownerName'', PStr ''Team B'')]])"
  using records_in_order
          [where env = "scripted_env None (Inr (PList
              [PDict [(''id'', PStr ''dp-1''), (''title'', PStr ''Sales Data''),
                      (''description'', PStr ''''), (''owner'', PStr ''team-a'')],
               PDict [(''id'', PStr ''dp-2''),
                      (''info'', PDict [(''title'', PStr ''Orders''),
                                        (''owner'', PStr ''team-b'')])]])) ''yaml''"
             and dps = "[PDict [(''id'', PStr ''dp-1''), (''title'', PStr ''Sales Data''),
                                (''description'', PStr ''''), (''owner'', PStr ''team-a'')],
                         PDict [(''id'', PStr ''dp-2''),
                                (''info'', PDict [(''title'', PStr ''Orders''),
                                                  (''owner'', PStr ''team-b'')])]]"
             and q = "Some ''sales''" and a = None and s = None]
        records_in_order
          [where env = "scripted_env None (Inr (PDict [(''results'', PList
              [PDict [(''id'', PStr ''dp-1''), (''name'', PStr ''Sales Data''),
                      (''ownerId'', PStr ''u-7'')],
               PDict [(''id'', PStr ''dp-2''), (''ownerName'', PStr ''Team B'')]])])) ''yaml''"
             and dps = "[PDict [(''id'', PStr ''dp-1''), (''name'', PStr ''Sales Data''),
                                (''ownerId'', PStr ''u-7'')],
                         PDict [(''id'', PStr ''dp-2''), (''ownerName'', PStr ''Team B'')]]"
             and t = "''sales''"
             and kvs = "[(''results'', PList
              [PDict [(''id'', PStr ''dp-1''), (''name'', PStr ''Sales Data''),
                      (''ownerId'', PStr ''u-7'')],
               PDict [(''id'', PStr ''dp-2''), (''ownerName'', PStr ''Team B'')]])]"]
  by (simp add: scripted_env_def list_format_def search_format_def get_top_or_info_def
                get_or_na_def)

text \<open>
  C8 as stated fails on a sequence with a record that does not normalize: with
  \<^verbatim>\<open>"info": null\<close> in the first of two records, \<^verbatim>\<open>dp.get("info", {}).get(...)\<close> raises
  \<^verbatim>\<open>AttributeError\<close>, the loop is left, and the tool returns one error marker in place of two
  normalized records.
\<close>

theorem malformed_record_counterexample:
  "fst (dataproduct_list (scripted_env None (Inr (PList
      [PDict [(''id'', PStr ''dp-1''), (''info'', PNone)],
       PDict [(''id'', PStr ''dp-2''), (''title'', PStr ''Orders'')]])) ''yaml'')
      None None None) =
     Inr (PList [PDict [(''error'', PStr (''Error fetching data products: '' @
        quoted ''NoneType'' @ '' object has no attribute '' @ quoted ''get''))]]) \<and>
   fst (dataproduct_search (scripted_env None (Inr (PDict [(''results'', PList
      [PDict [(''id'', PStr ''dp-1''), (''info'', PNone)],
       PDict [(''id'', PStr ''dp-2''), (''name'', PStr ''Orders'')]])])) ''yaml'')
      ''orders'') =
     Inr (PList [PDict [(''error'', PStr (''Error searching data products: '' @
        quoted ''NoneType'' @ '' object has no attribute '' @ quoted ''get''))]])"
  by (simp add: dataproduct_list_def dataproduct_list_try_def dataproduct_search_def
                dataproduct_search_try_def scripted_env_def format_products_def
                list_format_def search_format_def get_top_or_info_def get_or_na_def
                no_attribute_def)

text \<open>
  C9. Any falsy answer of the client, the empty mapping \<^verbatim>\<open>{}\<close> as much as \<^verbatim>\<open>None\<close>, makes
  \<^verbatim>\<open>dataproduct_get\<close> return \<^verbatim>\<open>"Data product not found"\<close> and \<^verbatim>\<open>datacontract_get\<close> return
  \<^verbatim>\<open>"Data contract not found"\<close>.
\<close>

theorem falsy_record_not_found:
  assumes "client_init env = None" and "\<not> truthy v"
  shows "(get_data_product env i = Inr v \<longrightarrow>
            fst (dataproduct_get env i) = Inr (PStr ''Data product not found'')) \<and>
         (get_data_contract env j = Inr v \<longrightarrow>
            fst (datacontract_get env j) = Inr (PStr ''Data contract not found''))"
  using assms
  by (simp add: dataproduct_get_def dataproduct_get_try_def
                datacontract_get_def datacontract_get_try_def)

text \<open>
  The theorem at an empty record \<^verbatim>\<open>{}\<close> that the registry does hold.
\<close>

theorem falsy_record_not_found_witness:
  "client_init (scripted_env None (Inr (PDict [])) ''yaml'') = None \<and>
   \<not> truthy (PDict []) \<and>
   get_data_product (scripted_env None (Inr (PDict [])) ''yaml'') ''dp-1'' = Inr (PDict []) \<and>
   get_data_contract (scripted_env None (Inr (PDict [])) ''yaml'') ''dc-1'' = Inr (PDict []) \<and>
   fst (dataproduct_get (scripted_env None (Inr (PDict [])) ''yaml'') ''dp-1'') =
     Inr (PStr ''Data product not found'') \<and>
   fst (datacontract_get (scripted_env None (Inr (PDict [])) ''yaml'') ''dc-1'') =
     Inr (PStr ''Data contract not found'')"
  using falsy_record_not_found [of "scripted_env None (Inr (PDict [])) ''yaml''" "PDict []"
                                   "''dp-1''" "''dc-1''"]
  by (simp add: scripted_env_def)

text \<open>
  C10 (as amended). Every record whose \<^verbatim>\<open>info\<close> is absent or a mapping, or whose
  \<^verbatim>\<open>title\<close>, \<^verbatim>\<open>description\<close> and \<^verbatim>\<open>owner\<close> are all non-empty at top level, is
  normalized by \<^verbatim>\<open>dataproduct_list\<close>. In a normalized record \<^verbatim>\<open>id\<close> is the raw \<^verbatim>\<open>id\<close>
  whenever the key is present (the empty string stays the empty string) and \<^verbatim>\<open>"N/A"\<close>
  when the key is absent, so that an \<^verbatim>\<open>id\<close> of \<^verbatim>\<open>"N/A"\<close> means an absent key or a raw
  \<^verbatim>\<open>id\<close> that is itself \<^verbatim>\<open>"N/A"\<close>; an empty \<^verbatim>\<open>title\<close>, \<^verbatim>\<open>description\<close> or \<^verbatim>\<open>owner\<close> is
  passed over for the value under \<^verbatim>\<open>info\<close> or \<^verbatim>\<open>"N/A"\<close>, and none of \<^verbatim>\<open>name\<close>,
  \<^verbatim>\<open>description\<close>, \<^verbatim>\<open>owner\<close> is ever the empty string.
\<close>

theorem id_presence_default:
  "((map_of kvs ''info'' = None \<or> (\<exists>info. map_of kvs ''info'' = Some (PDict info)) \<or>
     ((\<exists>n. map_of kvs ''title'' = Some n \<and> truthy n) \<and>
      (\<exists>d. map_of kvs ''description'' = Some d \<and> truthy d) \<and>
      (\<exists>ow. map_of kvs ''owner'' = Some ow \<and> truthy ow))) \<longrightarrow>
      (\<exists>out. list_format (PDict kvs) = Inr (PDict out))) \<and>
   (\<forall>out. list_format (PDict kvs) = Inr (PDict out) \<longrightarrow>
      map_of out ''id'' =
        Some (case map_of kvs ''id'' of None \<Rightarrow> PStr ''N/A'' | Some v \<Rightarrow> v) \<and>
      (map_of kvs ''id'' = Some (PStr '''') \<longrightarrow> map_of out ''id'' = Some (PStr '''')) \<and>
      (map_of kvs ''id'' = None \<longrightarrow> map_of out ''id'' = Some (PStr ''N/A'')) \<and>
      (map_of out ''id'' = Some (PStr ''N/A'') \<longrightarrow>
         map_of kvs ''id'' = None \<or> map_of kvs ''id'' = Some (PStr ''N/A'')) \<and>
      (map_of kvs ''title'' = Some (PStr '''') \<longrightarrow>
         map_of out ''name'' = Some (spec_first_present [spec_info_path kvs ''title''])) \<and>
      (map_of kvs ''description'' = Some (PStr '''') \<longrightarrow>
         map_of out ''description'' =
           Some (spec_first_present [spec_info_path kvs ''description''])) \<and>
      (map_of kvs ''owner'' = Some (PStr '''') \<longrightarrow>
         map_of out ''owner'' = Some (spec_first_present [spec_info_path kvs ''owner''])) \<and>
      map_of out ''name'' \<noteq> Some (PStr '''') \<and>
      map_of out ''description'' \<noteq> Some (PStr '''') \<and>
      map_of out ''owner'' \<noteq> Some (PStr ''''))"
proof (intro conjI allI impI)
  assume dom: "map_of kvs ''info'' = None \<or> (\<exists>info. map_of kvs ''info'' = Some (PDict info)) \<or>
     ((\<exists>n. map_of kvs ''title'' = Some n \<and> truthy n) \<and>
      (\<exists>d. map_of kvs ''description'' = Some d \<and> truthy d) \<and>
      (\<exists>ow. map_of kvs ''owner'' = Some ow \<and> truthy ow))"
  have "\<exists>out. list_format (PDict kvs) = Inr out"
  proof (cases "map_of kvs ''info'' = None \<or> (\<exists>info. map_of kvs ''info'' = Some (PDict info))")
    case True
    then show ?thesis by (rule list_format_defined)
  next
    case False
    with dom obtain n d ow where
      "map_of kvs ''title'' = Some n" "truthy n"
      "map_of kvs ''description'' = Some d" "truthy d"
      "map_of kvs ''owner'' = Some ow" "truthy ow"
      by blast
    then have "get_top_or_info (PDict kvs) ''title'' = Inr n"
      and "get_top_or_info (PDict kvs) ''description'' = Inr d"
      and "get_top_or_info (PDict kvs) ''owner'' = Inr ow"
      by (simp_all add: get_top_or_info_top)
    then show ?thesis by (simp add: list_format_def)
  qed
  then obtain out where out: "list_format (PDict kvs) = Inr out" by blast
  from list_format_dict [OF out] out
  show "\<exists>out. list_format (PDict kvs) = Inr (PDict out)" by blast
next
  fix out
  assume run: "list_format (PDict kvs) = Inr (PDict out)"
  have eq: "PDict out = PDict
     [(''id'', case map_of kvs ''id'' of None \<Rightarrow> PStr ''N/A'' | Some v \<Rightarrow> v),
      (''name'', spec_first_present [map_of kvs ''title'', spec_info_path kvs ''title'']),
      (''description'',
         spec_first_present [map_of kvs ''description'', spec_info_path kvs ''description'']),
      (''owner'', spec_first_present [map_of kvs ''owner'', spec_info_path kvs ''owner''])]"
    using run by (rule list_format_dict)
  have ne: "spec_first_present cs \<noteq> PStr ''''" for cs
    using spec_first_present_truthy [of cs] by auto
  from eq show "map_of out ''id'' =
        Some (case map_of kvs ''id'' of None \<Rightarrow> PStr ''N/A'' | Some v \<Rightarrow> v)"
    by auto
  from eq show "map_of out ''name'' \<noteq> Some (PStr '''')" using ne by auto
  from eq show "map_of out ''description'' \<noteq> Some (PStr '''')" using ne by auto
  from eq show "map_of out ''owner'' \<noteq> Some (PStr '''')" using ne by auto
  {
    assume "map_of kvs ''id'' = Some (PStr '''')"
    with eq show "map_of out ''id'' = Some (PStr '''')" by auto
  }
  {
    assume "map_of kvs ''id'' = None"
    with eq show "map_of out ''id'' = Some (PStr ''N/A'')" by auto
  }
  {
    assume "map_of out ''id'' = Some (PStr ''N/A'')"
    with eq show "map_of kvs ''id'' = None \<or> map_of kvs ''id'' = Some (PStr ''N/A'')"
      by (auto split: option.splits)
  }
  {
    assume "map_of kvs ''title'' = Some (PStr '''')"
    with eq show "map_of out ''name'' = Some (spec_first_present [spec_info_path kvs ''title''])"
      by auto
  }
  {
    assume "map_of kvs ''description'' = Some (PStr '''')"
    with eq show "map_of out ''description'' =
           Some (spec_first_present [spec_info_path kvs ''description''])"
      by auto
  }
  {
    assume "map_of kvs ''owner'' = Some (PStr '''')"
    with eq show "map_of out ''owner'' = Some (spec_first_present [spec_info_path kvs ''owner''])"
      by auto
  }
qed

text \<open>
  The theorem at a record without \<^verbatim>\<open>info\<close> whose four attributes are all the empty
  string.
\<close>

theorem id_presence_default_witness:
  "map_of [(''id'', PStr ''''), (''title'', PStr ''''),
           (''description'', PStr ''''), (''owner'', PStr '''')] ''info'' = None \<and>
   list_format (PDict [(''id'', PStr ''''), (''title'', PStr ''''),
                       (''description'', PStr ''''), (''owner'', PStr '''')]) =
     Inr (PDict [(''id'', PStr ''''), (''name'', PStr ''N/A''),
                 (''description'', PStr ''N/A''), (''owner'', PStr ''N/A'')]) \<and>
   map_of [(''id'', PStr ''''), (''title'', PStr ''''),
           (''description'', PStr ''''), (''owner'', PStr '''')] ''id'' = Some (PStr '''') \<and>
   map_of [(''id'', PStr ''''), (''name'', PStr ''N/A''),
           (''description'', PStr ''N/A''), (''owner'', PStr ''N/A'')] ''id'' = Some (PStr '''') \<and>
   map_of [(''id'', PStr ''''), (''name'', PStr ''N/A''),
           (''description'', PStr ''N/A''), (''owner'', PStr ''N/A'')] ''name'' =
     Some (PStr ''N/A'')"
proof -
  have run: "list_format (PDict [(''id'', PStr ''''), (''title'', PStr ''''),
                       (''description'', PStr ''''), (''owner'', PStr '''')]) =
     Inr (PDict [(''id'', PStr ''''), (''name'', PStr ''N/A''),
                 (''description'', PStr ''N/A''), (''owner'', PStr ''N/A'')])"
    by (simp add: list_format_def get_top_or_info_def)
  from id_presence_default
         [of "[(''id'', PStr ''''), (''title'', PStr ''''),
               (''description'', PStr ''''), (''owner'', PStr '''')]"] run
  show ?thesis by simp
qed

text \<open>
  C10 as stated fails twice. A raw \<^verbatim>\<open>id\<close> that is itself \<^verbatim>\<open>"N/A"\<close> is emitted as
  \<^verbatim>\<open>"N/A"\<close> although the key is present; and a record with \<^verbatim>\<open>id\<close> \<^verbatim>\<open>""\<close> and
  \<^verbatim>\<open>"info": null\<close> is not normalized at all: the tool returns an error marker, not a
  record with \<^verbatim>\<open>id\<close> \<^verbatim>\<open>""\<close>.
\<close>

theorem id_sentinel_counterexample:
  "fst (dataproduct_list (scripted_env None (Inr (PList [PDict [(''id'', PStr ''N/A'')]])) ''yaml'')
          None None None) =
     Inr (PList [PDict [(''id'', PStr ''N/A''), (''name'', PStr ''N/A''),
                        (''description'', PStr ''N/A''), (''owner'', PStr ''N/A'')]]) \<and>
   map_of [(''id'', PStr ''N/A'')] ''id'' = Some (PStr ''N/A'') \<and>
   fst (dataproduct_list (scripted_env None (Inr (PList
          [PDict [(''id'', PStr ''''), (''info'', PNone)]])) ''yaml'') None None None) =
     Inr (PList [PDict [(''error'', PStr (''Error fetching data products: '' @
        quoted ''NoneType'' @ '' object has no attribute '' @ quoted ''get''))]])"
  by (simp add: dataproduct_list_def dataproduct_list_try_def scripted_env_def
                format_products_def list_format_def get_top_or_info_def no_attribute_def)

end
